theory Spec2Isabelle
  imports Complex_Main "HOL-Library.Word" "HOL-Library.Log_Nat"
begin

section \<open>Data model (src/types.ts)\<close>

text \<open>
  \<^verbatim>\<open>Message\<close> and \<^verbatim>\<open>AssistantStatus\<close> of src/types.ts. The field names \<^verbatim>\<open>id\<close> and
  \<^verbatim>\<open>text\<close> carry the prefix \<open>msg_\<close>.
\<close>

datatype Speaker = user | ai

record Message =
  msg_id :: int
  speaker :: Speaker
  msg_text :: string

datatype AssistantStatus = idle | listening | speaking | thinking | error

section \<open>The objects the component holds\<close>

text \<open>
  A server message as \<^verbatim>\<open>handleMessage\<close> reads it. Every access in the source goes through
  \<^verbatim>\<open>message.serverContent?.\<close>, so a message without \<^verbatim>\<open>serverContent\<close> is the record with
  every field absent. \<open>modelTurn\<close> is the list \<^verbatim>\<open>modelTurn.parts\<close>, each part given by its
  \<^verbatim>\<open>inlineData?.data\<close>. Strings are lists of code units below 256.
\<close>

type_synonym Part = "string option"

record LiveServerMessage =
  outputTranscription :: "string option"
  inputTranscription :: "string option"
  turnComplete :: bool
  modelTurn :: "Part list option"
  interrupted :: bool

text \<open>
  What one run of \<^verbatim>\<open>handleMessage\<close> reads from outside the component: the output
  context's \<^verbatim>\<open>currentTime\<close> (line 89), the two \<^verbatim>\<open>Date.now()\<close> readings of lines 75 and 78,
  and the helper \<^verbatim>\<open>decodeAudioData(decode(base64Audio), ...)\<close> of utils/audio, of which the
  handler uses only the duration of the buffer (\<open>None\<close> when decoding throws).
  Times and durations are JavaScript numbers: finite doubles, written as the reals they
  denote.
\<close>

record MessageEnv =
  currentTime :: real
  dateNow_user :: int
  dateNow_ai :: int
  decodeAudioData :: "string \<Rightarrow> real option"

datatype AudioContextState = ctx_suspended | ctx_running | ctx_closed

datatype MediaStream = MediaStream

datatype ScriptProcessorNode = ScriptProcessorNode

text \<open>The promise returned by \<^verbatim>\<open>ai.live.connect\<close>, by the way it settles.\<close>

datatype session_promise = fulfilled | rejected

text \<open>How an async function of the component ends: it returns, or it throws (its promise rejects).\<close>

datatype completion = Returned | Thrown

text \<open>
  Calls made on objects outside the component. A buffer source is named by the number of
  sources created before it; \<open>SourceStart h t d\<close> is \<^verbatim>\<open>source.start(t)\<close> on source \<open>h\<close>
  whose buffer lasts \<open>d\<close>.
\<close>

datatype call =
    SourceStart nat real real
  | SourceStop nat
  | SessionClose
  | TrackStop
  | NodeDisconnect
  | InputContextClose
  | OutputContextClose
  | SendRealtimeInput "16 word list"

text \<open>
  The React state (\<open>status\<close>, \<open>conversation\<close>, \<open>error_msg\<close> for the state variable
  \<^verbatim>\<open>error\<close>) and the refs of \<^verbatim>\<open>App\<close>. \<open>audioSources\<close> is the JavaScript \<^verbatim>\<open>Set\<close> in insertion
  order. \<open>created\<close> counts the buffer sources created so far and \<open>calls\<close> lists the calls
  made on outside objects; the source has no variable for either.
\<close>

record AppState =
  status :: AssistantStatus
  conversation :: "Message list"
  error_msg :: "string option"
  liveSessionPromise :: "session_promise option"
  inputAudioContext :: "AudioContextState option"
  outputAudioContext :: "AudioContextState option"
  microphoneStream :: "MediaStream option"
  scriptProcessorNode :: "ScriptProcessorNode option"
  userInputRef :: string
  aiOutputRef :: string
  nextAudioStartTime :: real
  audioSources :: "nat list"
  created :: nat
  calls :: "call list"

definition initial :: AppState where
  "initial = \<lparr>status = idle, conversation = [], error_msg = None,
     liveSessionPromise = None, inputAudioContext = None, outputAudioContext = None,
     microphoneStream = None, scriptProcessorNode = None,
     userInputRef = [], aiOutputRef = [], nextAudioStartTime = 0,
     audioSources = [], created = 0, calls = []\<rparr>"

section \<open>JavaScript helpers\<close>

text \<open>\<^verbatim>\<open>String.prototype.trim\<close>: the white space and line terminators below code 256.\<close>

definition isWhiteSpace :: "char \<Rightarrow> bool" where
  "isWhiteSpace c = (c \<in> set [CHR 0x09, CHR 0x0A, CHR 0x0B, CHR 0x0C, CHR 0x0D, CHR 0x20, CHR 0xA0])"

definition trim :: "string \<Rightarrow> string" where
  "trim s = rev (dropWhile isWhiteSpace (rev (dropWhile isWhiteSpace s)))"

text \<open>\<^verbatim>\<open>Set.prototype.add\<close> and \<^verbatim>\<open>Set.prototype.delete\<close> on the insertion-ordered list.\<close>

definition set_add :: "nat \<Rightarrow> nat list \<Rightarrow> nat list" where
  "set_add x xs = (if x \<in> set xs then xs else xs @ [x])"

definition set_delete :: "nat \<Rightarrow> nat list \<Rightarrow> nat list" where
  "set_delete x xs = filter (\<lambda>y. y \<noteq> x) xs"

text \<open>
  A JavaScript number read from a \<^verbatim>\<open>Float32Array\<close>: a finite value (a dyadic rational), NaN
  or an infinity. Multiplying a single-precision value by \<open>32768 = 2^15\<close> in double precision
  is exact. An assignment to an \<^verbatim>\<open>Int16Array\<close> element applies ToInt16: not finite gives 0,
  otherwise truncate towards zero and reduce modulo \<open>2^16\<close> into the signed range.
\<close>

datatype number = Finite real | NaN | PosInfinity | NegInfinity

definition multiply :: "number \<Rightarrow> real \<Rightarrow> number" where
  "multiply x k = (case x of Finite r \<Rightarrow> Finite (r * k) | NaN \<Rightarrow> NaN
      | PosInfinity \<Rightarrow> (if k > 0 then PosInfinity else if k < 0 then NegInfinity else NaN)
      | NegInfinity \<Rightarrow> (if k > 0 then NegInfinity else if k < 0 then PosInfinity else NaN))"

definition trunc :: "real \<Rightarrow> int" where
  "trunc r = (if r < 0 then - \<lfloor>- r\<rfloor> else \<lfloor>r\<rfloor>)"

definition ToInt16 :: "number \<Rightarrow> 16 word" where
  "ToInt16 x = (case x of Finite r \<Rightarrow> word_of_int (trunc r) | _ \<Rightarrow> 0)"

text \<open>
  Addition of two doubles (the \<^verbatim>\<open>+=\<close> of line 104): the exact sum rounded to the nearest
  double, ties to even. \<open>ilog2 x\<close> is the exponent \<open>\<lfloor>log\<^sub>2 x\<rfloor>\<close> of a positive \<open>x\<close>, and a
  double has 53 significant bits, so the spacing of the doubles around \<open>x\<close> is
  \<open>2 ^ (ilog2 \<bar>x\<bar> - 52)\<close>. A sum of two doubles in the subnormal range is a double, which
  this rounding leaves as it is; a sum beyond the largest double (about \<open>1.8 * 10 ^ 308\<close>)
  is taken as rounded here, where JavaScript gives \<^verbatim>\<open>Infinity\<close>. \<^verbatim>\<open>Math.max\<close> and the
  comparisons of finite doubles are exact.
\<close>

definition pow2 :: "int \<Rightarrow> real" where
  "pow2 k = (if 0 \<le> k then 2 ^ nat k else 1 / 2 ^ nat (- k))"

definition ilog2 :: "real \<Rightarrow> int" where
  "ilog2 x = (if 1 \<le> x then bitlen \<lfloor>x\<rfloor> - 1 else - bitlen (\<lceil>1 / x\<rceil> - 1))"

definition roundTiesToEven :: "real \<Rightarrow> int" where
  "roundTiesToEven q =
     (let f = \<lfloor>q\<rfloor>; r = q - of_int f
      in if r < 1 / 2 then f else if 1 / 2 < r then f + 1 else if even f then f else f + 1)"

definition roundDouble :: "real \<Rightarrow> real" where
  "roundDouble x =
     (if x = 0 then 0
      else (let u = pow2 (ilog2 \<bar>x\<bar> - 52) in of_int (roundTiesToEven (x / u)) * u))"

definition addDouble :: "real \<Rightarrow> real \<Rightarrow> real" where
  "addDouble x y = roundDouble (x + y)"

section \<open>handleMessage (src/App.tsx, lines 63-116)\<close>

text \<open>
  Each run of a callback is one step: the continuation after an \<^verbatim>\<open>await\<close> runs before any
  other callback. A function that can throw returns how it ended together with the state
  it left behind.
\<close>

text \<open>Lines 64-68.\<close>

definition appendTranscription :: "LiveServerMessage \<Rightarrow> AppState \<Rightarrow> AppState" where
  "appendTranscription m s =
     (case outputTranscription m of
        Some t \<Rightarrow> s\<lparr>aiOutputRef := aiOutputRef s @ t\<rparr>
      | None \<Rightarrow>
          (case inputTranscription m of
             Some t \<Rightarrow> s\<lparr>userInputRef := userInputRef s @ t\<rparr>
           | None \<Rightarrow> s))"

text \<open>Lines 70-84, the body of \<^verbatim>\<open>if (message.serverContent?.turnComplete)\<close>.\<close>

definition completeTurn :: "MessageEnv \<Rightarrow> AppState \<Rightarrow> AppState" where
  "completeTurn e s =
     (let userText = trim (userInputRef s);
          aiText = trim (aiOutputRef s);
          c1 = (if userText \<noteq> []
                then conversation s @ [\<lparr>msg_id = dateNow_user e, speaker = user, msg_text = userText\<rparr>]
                else conversation s);
          c2 = (if aiText \<noteq> []
                then c1 @ [\<lparr>msg_id = dateNow_ai e + 1, speaker = ai, msg_text = aiText\<rparr>]
                else c1)
      in s\<lparr>conversation := c2, userInputRef := [], aiOutputRef := [], status := listening\<rparr>)"

text \<open>Line 86: \<^verbatim>\<open>message.serverContent?.modelTurn?.parts[0]?.inlineData?.data\<close>.\<close>

definition base64Audio :: "LiveServerMessage \<Rightarrow> string option" where
  "base64Audio m = (case modelTurn m of None \<Rightarrow> None | Some [] \<Rightarrow> None | Some (p # ps) \<Rightarrow> p)"

text \<open>Lines 88-105, the body of \<^verbatim>\<open>if (base64Audio && outputAudioContext.current)\<close>.\<close>

definition playAudio :: "MessageEnv \<Rightarrow> string \<Rightarrow> AppState \<Rightarrow> completion \<times> AppState" where
  "playAudio e b s =
     (let s1 = s\<lparr>status := speaking,
                 nextAudioStartTime := max (nextAudioStartTime s) (currentTime e)\<rparr>
      in case decodeAudioData e b of
           None \<Rightarrow> (Thrown, s1)
         | Some duration \<Rightarrow>
             (let source = created s1
              in (Returned,
                  s1\<lparr>created := Suc source,
                     calls := calls s1 @ [SourceStart source (nextAudioStartTime s1) duration],
                     nextAudioStartTime := addDouble (nextAudioStartTime s1) duration,
                     audioSources := set_add source (audioSources s1)\<rparr>)))"

text \<open>Lines 109-112: the loop over \<^verbatim>\<open>audioSources.current.values()\<close>.\<close>

definition stopSource :: "AppState \<Rightarrow> nat \<Rightarrow> AppState" where
  "stopSource s source =
     s\<lparr>calls := calls s @ [SourceStop source],
       audioSources := set_delete source (audioSources s)\<rparr>"

definition stopAllSources :: "AppState \<Rightarrow> AppState" where
  "stopAllSources s = foldl stopSource s (audioSources s)"

text \<open>Lines 108-115, the body of \<^verbatim>\<open>if (message.serverContent?.interrupted)\<close>.\<close>

definition interrupt :: "AppState \<Rightarrow> AppState" where
  "interrupt s = (stopAllSources s)\<lparr>nextAudioStartTime := 0, status := listening\<rparr>"

text \<open>Lines 86-106: the payload is scheduled when it is a non-empty string and the output context is set.\<close>

definition scheduleAudio :: "MessageEnv \<Rightarrow> LiveServerMessage \<Rightarrow> AppState \<Rightarrow> completion \<times> AppState" where
  "scheduleAudio e m s =
     (case base64Audio m of
        None \<Rightarrow> (Returned, s)
      | Some b \<Rightarrow>
          if b \<noteq> [] \<and> outputAudioContext s \<noteq> None
          then playAudio e b s else (Returned, s))"

text \<open>Lines 64-84: the transcription fragment, then the turn boundary.\<close>

definition transcribed :: "MessageEnv \<Rightarrow> LiveServerMessage \<Rightarrow> AppState \<Rightarrow> AppState" where
  "transcribed e m s =
     (let s1 = appendTranscription m s
      in if turnComplete m then completeTurn e s1 else s1)"

definition handleMessage :: "MessageEnv \<Rightarrow> LiveServerMessage \<Rightarrow> AppState \<Rightarrow> completion \<times> AppState" where
  "handleMessage e m s =
     (case scheduleAudio e m (transcribed e m s) of
        (Thrown, s3) \<Rightarrow> (Thrown, s3)
      | (Returned, s3) \<Rightarrow> (Returned, if interrupted m then interrupt s3 else s3))"

text \<open>Lines 96-101: the listener of a source's \<^verbatim>\<open>ended\<close> event.\<close>

definition sourceEnded :: "nat \<Rightarrow> AppState \<Rightarrow> AppState" where
  "sourceEnded source s =
     (let s1 = s\<lparr>audioSources := set_delete source (audioSources s)\<rparr>
      in if length (audioSources s1) = 0 then s1\<lparr>status := listening\<rparr> else s1)"

section \<open>Session lifecycle (src/App.tsx, lines 118-229)\<close>

text \<open>
  \<^verbatim>\<open>stopSession\<close>, lines 131-158, with one definition for each of its five \<^verbatim>\<open>if\<close>
  statements (lines 134-138, 140-143, 145-148, 150-153, 154-157). Awaiting a rejected
  session promise throws at line 135, after the status has been set.
\<close>

definition closeSession :: "AppState \<Rightarrow> AppState" where
  "closeSession s =
     (case liveSessionPromise s of
        None \<Rightarrow> s
      | Some p \<Rightarrow> s\<lparr>calls := calls s @ [SessionClose], liveSessionPromise := None\<rparr>)"

definition stopTracks :: "AppState \<Rightarrow> AppState" where
  "stopTracks s =
     (case microphoneStream s of
        None \<Rightarrow> s
      | Some stream \<Rightarrow> s\<lparr>calls := calls s @ [TrackStop], microphoneStream := None\<rparr>)"

definition disconnectNode :: "AppState \<Rightarrow> AppState" where
  "disconnectNode s =
     (case scriptProcessorNode s of
        None \<Rightarrow> s
      | Some node \<Rightarrow> s\<lparr>calls := calls s @ [NodeDisconnect], scriptProcessorNode := None\<rparr>)"

definition closeInputContext :: "AppState \<Rightarrow> AppState" where
  "closeInputContext s =
     (case inputAudioContext s of
        None \<Rightarrow> s
      | Some c \<Rightarrow>
          if c \<noteq> ctx_closed
          then s\<lparr>calls := calls s @ [InputContextClose], inputAudioContext := None\<rparr>
          else s)"

definition closeOutputContext :: "AppState \<Rightarrow> AppState" where
  "closeOutputContext s =
     (case outputAudioContext s of
        None \<Rightarrow> s
      | Some c \<Rightarrow>
          if c \<noteq> ctx_closed
          then s\<lparr>calls := calls s @ [OutputContextClose], outputAudioContext := None\<rparr>
          else s)"

definition stopSession :: "AppState \<Rightarrow> completion \<times> AppState" where
  "stopSession s =
     (let s0 = s\<lparr>status := idle\<rparr>
      in if liveSessionPromise s0 = Some rejected then (Thrown, s0)
         else (Returned,
               closeOutputContext (closeInputContext (disconnectNode (stopTracks (closeSession s0))))))"

text \<open>\<^verbatim>\<open>handleError\<close>, lines 118-123. The promise of \<^verbatim>\<open>stopSession()\<close> is not awaited.\<close>

definition handleError :: "AppState \<Rightarrow> AppState" where
  "handleError s =
     snd (stopSession (s\<lparr>error_msg := Some ''An error occurred with the connection. Please try again.'',
                         status := error\<rparr>))"

text \<open>\<^verbatim>\<open>handleClose\<close>, lines 125-129: the lines written to the console, and the state.\<close>

definition handleClose :: "AppState \<Rightarrow> string list \<times> AppState" where
  "handleClose s = (if status s \<noteq> error then [''Session closed.''] else [], s)"

text \<open>
  What \<^verbatim>\<open>startSession\<close> gets from outside: the stream of \<^verbatim>\<open>getUserMedia\<close> (\<open>None\<close> when the
  promise rejects, as on a denied permission), the state of each new \<^verbatim>\<open>AudioContext\<close>
  (\<open>None\<close> when the constructor throws), and the promise of \<^verbatim>\<open>ai.live.connect\<close> (\<open>None\<close>
  when building the client or the call throws before a promise is returned).
\<close>

record StartEnv =
  getUserMedia :: "MediaStream option"
  newInputContext :: "AudioContextState option"
  newOutputContext :: "AudioContextState option"
  connect :: "session_promise option"

text \<open>The \<^verbatim>\<open>catch\<close> block, lines 215-220.\<close>

definition startFailed :: "AppState \<Rightarrow> completion \<times> AppState" where
  "startFailed s =
     stopSession (s\<lparr>error_msg := Some ''Could not access microphone. Please grant permission and try again.'',
                    status := error\<rparr>)"

text \<open>\<^verbatim>\<open>startSession\<close>, lines 160-221.\<close>

definition startSession :: "StartEnv \<Rightarrow> AppState \<Rightarrow> completion \<times> AppState" where
  "startSession e s =
     (let s0 = s\<lparr>error_msg := None, status := thinking\<rparr>
      in case getUserMedia e of
           None \<Rightarrow> startFailed s0
         | Some stream \<Rightarrow>
             (let s1 = s0\<lparr>microphoneStream := Some stream\<rparr>
              in case newInputContext e of
                   None \<Rightarrow> startFailed s1
                 | Some ic \<Rightarrow>
                     (let s2 = s1\<lparr>inputAudioContext := Some ic\<rparr>
                      in case newOutputContext e of
                           None \<Rightarrow> startFailed s2
                         | Some oc \<Rightarrow>
                             (let s3 = s2\<lparr>outputAudioContext := Some oc, nextAudioStartTime := 0\<rparr>
                              in case connect e of
                                   None \<Rightarrow> startFailed s3
                                 | Some p \<Rightarrow> (Returned, s3\<lparr>liveSessionPromise := Some p\<rparr>)))))"

text \<open>
  The \<^verbatim>\<open>onopen\<close> callback, lines 178-201. \<^verbatim>\<open>inputAudioContext.current!\<close> is read without a
  check, so the callback throws when the ref is null.
\<close>

definition onopen :: "AppState \<Rightarrow> completion \<times> AppState" where
  "onopen s =
     (case inputAudioContext s of
        None \<Rightarrow> (Thrown, s)
      | Some c \<Rightarrow> (Returned, s\<lparr>scriptProcessorNode := Some ScriptProcessorNode, status := listening\<rparr>))"

text \<open>
  The \<^verbatim>\<open>onaudioprocess\<close> callback, lines 182-196. \<open>floatTo16BitPCM\<close> is the loop of lines
  185-188; the frame is recorded as its samples, before \<^verbatim>\<open>encode\<close> of utils/audio turns the
  bytes into text. The frame is sent when the session promise is set and fulfils.
\<close>

definition floatTo16BitPCM :: "number list \<Rightarrow> 16 word list" where
  "floatTo16BitPCM inputData = map (\<lambda>x. ToInt16 (multiply x 32768)) inputData"

definition onaudioprocess :: "number list \<Rightarrow> AppState \<Rightarrow> AppState" where
  "onaudioprocess inputData s =
     (let int16 = floatTo16BitPCM inputData
      in if liveSessionPromise s = Some fulfilled
         then s\<lparr>calls := calls s @ [SendRealtimeInput int16]\<rparr> else s)"

text \<open>\<^verbatim>\<open>toggleSession\<close>, lines 223-229.\<close>

definition toggleSession :: "StartEnv \<Rightarrow> AppState \<Rightarrow> completion \<times> AppState" where
  "toggleSession e s =
     (if status s = idle \<or> status s = error then startSession e s else stopSession s)"

section \<open>Runs of the component\<close>

datatype event =
    OnMessage MessageEnv LiveServerMessage
  | OnEnded nat
  | OnError
  | OnClose
  | OnOpen
  | OnAudioProcess "number list"
  | Toggle StartEnv

fun step :: "AppState \<Rightarrow> event \<Rightarrow> AppState" where
  "step s (OnMessage e m) = snd (handleMessage e m s)"
| "step s (OnEnded source) = sourceEnded source s"
| "step s OnError = handleError s"
| "step s OnClose = snd (handleClose s)"
| "step s OnOpen = snd (onopen s)"
| "step s (OnAudioProcess inputData) = onaudioprocess inputData s"
| "step s (Toggle e) = snd (toggleSession e s)"

fun run :: "event list \<Rightarrow> AppState \<Rightarrow> AppState" where
  "run [] s = s"
| "run (ev # es) s = run es (step s ev)"

text \<open>A sequence of server messages, each with what its run of the handler reads.\<close>

fun handleMessages :: "(MessageEnv \<times> LiveServerMessage) list \<Rightarrow> AppState \<Rightarrow> AppState" where
  "handleMessages [] s = s"
| "handleMessages ((e, m) # ems) s = handleMessages ems (snd (handleMessage e m s))"

section \<open>Observations used by the properties\<close>

text \<open>The message without \<^verbatim>\<open>serverContent\<close>.\<close>

definition noContent :: LiveServerMessage where
  "noContent = \<lparr>outputTranscription = None, inputTranscription = None, turnComplete = False,
     modelTurn = None, interrupted = False\<rparr>"

text \<open>The text of a transcription fragment, empty when the message carries none.\<close>

fun fragment :: "string option \<Rightarrow> string" where
  "fragment None = []"
| "fragment (Some t) = t"

text \<open>
  The payloads scheduled by one run of the handler: for every \<^verbatim>\<open>source.start\<close> call the run
  adds, the clock reading of the run, the start time and the duration.
\<close>

fun startsOf :: "real \<Rightarrow> call list \<Rightarrow> (real \<times> real \<times> real) list" where
  "startsOf c [] = []"
| "startsOf c (SourceStart h t d # cs) = (c, t, d) # startsOf c cs"
| "startsOf c (x # cs) = startsOf c cs"



section \<open>Helper lemmas\<close>

lemma foldl_stopSource_sources:
  "audioSources (foldl stopSource s xs) = filter (\<lambda>y. y \<notin> set xs) (audioSources s)"
  by (induction xs arbitrary: s) (auto simp: stopSource_def set_delete_def intro: filter_cong)

lemma stopAllSources_empty: "audioSources (stopAllSources s) = []"
  by (simp add: stopAllSources_def foldl_stopSource_sources)

lemma foldl_stopSource_frame:
  "userInputRef (foldl stopSource s xs) = userInputRef s"
  "aiOutputRef (foldl stopSource s xs) = aiOutputRef s"
  "conversation (foldl stopSource s xs) = conversation s"
  "nextAudioStartTime (foldl stopSource s xs) = nextAudioStartTime s"
  "calls (foldl stopSource s xs) = calls s @ map SourceStop xs"
  by (induction xs arbitrary: s) (simp_all add: stopSource_def)

lemma interrupt_frame [simp]:
  "userInputRef (interrupt s) = userInputRef s"
  "aiOutputRef (interrupt s) = aiOutputRef s"
  "conversation (interrupt s) = conversation s"
  "calls (interrupt s) = calls s @ map SourceStop (audioSources s)"
  by (simp_all add: interrupt_def stopAllSources_def foldl_stopSource_frame)

lemma playAudio_frame [simp]:
  "userInputRef (snd (playAudio e b s)) = userInputRef s"
  "aiOutputRef (snd (playAudio e b s)) = aiOutputRef s"
  "conversation (snd (playAudio e b s)) = conversation s"
  by (simp_all add: playAudio_def Let_def split: option.split)

lemma scheduleAudio_frame [simp]:
  "userInputRef (snd (scheduleAudio e m s)) = userInputRef s"
  "aiOutputRef (snd (scheduleAudio e m s)) = aiOutputRef s"
  "conversation (snd (scheduleAudio e m s)) = conversation s"
  by (simp_all add: scheduleAudio_def split: option.split)

text \<open>The state a run of the handler leaves, whether it returns or throws.\<close>

lemma handleMessage_snd:
  "snd (handleMessage e m s) =
     (if fst (scheduleAudio e m (transcribed e m s)) = Returned \<and> interrupted m
      then interrupt (snd (scheduleAudio e m (transcribed e m s)))
      else snd (scheduleAudio e m (transcribed e m s)))"
proof (cases "scheduleAudio e m (transcribed e m s)")
  case (Pair c s3)
  then show ?thesis
    by (cases c) (simp_all add: handleMessage_def)
qed

lemma handleMessage_fst:
  "fst (handleMessage e m s) = fst (scheduleAudio e m (transcribed e m s))"
proof (cases "scheduleAudio e m (transcribed e m s)")
  case (Pair c s3)
  then show ?thesis
    by (cases c) (simp_all add: handleMessage_def)
qed

lemma handleMessage_transcript:
  "userInputRef (snd (handleMessage e m s)) = userInputRef (transcribed e m s)"
  "aiOutputRef (snd (handleMessage e m s)) = aiOutputRef (transcribed e m s)"
  "conversation (snd (handleMessage e m s)) = conversation (transcribed e m s)"
  by (simp_all add: handleMessage_snd)

lemma transcribed_no_turn:
  assumes "\<not> turnComplete m" and "outputTranscription m = None \<or> inputTranscription m = None"
  shows "userInputRef (transcribed e m s) = userInputRef s @ fragment (inputTranscription m)"
    and "aiOutputRef (transcribed e m s) = aiOutputRef s @ fragment (outputTranscription m)"
  using assms by (auto simp: transcribed_def appendTranscription_def split: option.split)

lemma transcribed_no_turn_conversation:
  "\<not> turnComplete m \<Longrightarrow> conversation (transcribed e m s) = conversation s"
  by (simp add: transcribed_def appendTranscription_def split: option.split)

lemma handleMessages_accumulate:
  assumes "\<forall>(e, m) \<in> set ems. \<not> turnComplete m \<and> (outputTranscription m = None \<or> inputTranscription m = None)"
  shows "userInputRef (handleMessages ems s)
           = userInputRef s @ concat (map (\<lambda>(e, m). fragment (inputTranscription m)) ems)"
    and "aiOutputRef (handleMessages ems s)
           = aiOutputRef s @ concat (map (\<lambda>(e, m). fragment (outputTranscription m)) ems)"
    and "conversation (handleMessages ems s) = conversation s"
  using assms
proof (induction ems arbitrary: s)
  case Nil
  {
    case 1 show ?case by simp
  next
    case 2 show ?case by simp
  next
    case 3 show ?case by simp
  }
next
  case (Cons em ems)
  obtain e m where em: "em = (e, m)" by (cases em)
  {
    case 1
    then have m: "\<not> turnComplete m" "outputTranscription m = None \<or> inputTranscription m = None"
      and rest: "\<forall>(e, m) \<in> set ems. \<not> turnComplete m \<and> (outputTranscription m = None \<or> inputTranscription m = None)"
      using em by auto
    show ?case
      using Cons.IH(1) [OF rest, of "snd (handleMessage e m s)"] transcribed_no_turn [OF m, of e s]
      by (simp add: em handleMessage_transcript)
  next
    case 2
    then have m: "\<not> turnComplete m" "outputTranscription m = None \<or> inputTranscription m = None"
      and rest: "\<forall>(e, m) \<in> set ems. \<not> turnComplete m \<and> (outputTranscription m = None \<or> inputTranscription m = None)"
      using em by auto
    show ?case
      using Cons.IH(2) [OF rest, of "snd (handleMessage e m s)"] transcribed_no_turn [OF m, of e s]
      by (simp add: em handleMessage_transcript)
  next
    case 3
    then have m: "\<not> turnComplete m" 
      and rest: "\<forall>(e, m) \<in> set ems. \<not> turnComplete m \<and> (outputTranscription m = None \<or> inputTranscription m = None)"
      using em by auto
    show ?case
      using Cons.IH(3) [OF rest, of "snd (handleMessage e m s)"] transcribed_no_turn_conversation [OF m, of e s]
      by (simp add: em handleMessage_transcript)
  }
qed

lemma handleMessages_append:
  "handleMessages (ems @ ems') s = handleMessages ems' (handleMessages ems s)"
  by (induction ems arbitrary: s) auto

lemma trim_Nil [simp]: "trim [] = []"
  by (simp add: trim_def)

lemma transcribed_turn:
  assumes "turnComplete m" and "outputTranscription m = None \<or> inputTranscription m = None"
  shows "conversation (transcribed e m s) =
     conversation s
     @ (if trim (userInputRef s @ fragment (inputTranscription m)) \<noteq> []
        then [\<lparr>msg_id = dateNow_user e, speaker = user,
               msg_text = trim (userInputRef s @ fragment (inputTranscription m))\<rparr>] else [])
     @ (if trim (aiOutputRef s @ fragment (outputTranscription m)) \<noteq> []
        then [\<lparr>msg_id = dateNow_ai e + 1, speaker = ai,
               msg_text = trim (aiOutputRef s @ fragment (outputTranscription m))\<rparr>] else [])"
    and "userInputRef (transcribed e m s) = []"
    and "aiOutputRef (transcribed e m s) = []"
  using assms
  by (auto simp: transcribed_def appendTranscription_def completeTurn_def Let_def split: option.split)

lemma concat_map_filter:
  "\<forall>z \<in> set zs. \<not> P z \<longrightarrow> g z = [] \<Longrightarrow> concat (map g zs) = concat (map g (filter P zs))"
  by (induction zs) auto

lemma shuffles_concat_left:
  assumes "zs \<in> shuffles xs ys" and "set xs \<inter> set ys = {}" and "\<forall>y \<in> set ys. g y = []"
  shows "concat (map g zs) = concat (map g xs)"
proof -
  have "set zs = set xs \<union> set ys"
    using assms(1) by (rule set_shuffles)
  then have "\<forall>z \<in> set zs. \<not> z \<in> set xs \<longrightarrow> g z = []"
    using assms(3) by auto
  then have "concat (map g zs) = concat (map g (filter (\<lambda>z. z \<in> set xs) zs))"
    by (rule concat_map_filter)
  also have "filter (\<lambda>z. z \<in> set xs) zs = xs"
    using assms(2,1) by (rule filter_shuffles_disjoint1)
  finally show ?thesis .
qed

lemma shuffles_concat_right:
  assumes "zs \<in> shuffles xs ys" and "set xs \<inter> set ys = {}" and "\<forall>x \<in> set xs. g x = []"
  shows "concat (map g zs) = concat (map g ys)"
proof -
  have "set zs = set xs \<union> set ys"
    using assms(1) by (rule set_shuffles)
  then have "\<forall>z \<in> set zs. \<not> z \<in> set ys \<longrightarrow> g z = []"
    using assms(3) by auto
  then have "concat (map g zs) = concat (map g (filter (\<lambda>z. z \<in> set ys) zs))"
    by (rule concat_map_filter)
  also have "filter (\<lambda>z. z \<in> set ys) zs = ys"
    using assms(2,1) by (rule filter_shuffles_disjoint2)
  finally show ?thesis .
qed

lemma transcribed_playback_frame [simp]:
  "calls (transcribed e m s) = calls s"
  "nextAudioStartTime (transcribed e m s) = nextAudioStartTime s"
  "outputAudioContext (transcribed e m s) = outputAudioContext s"
  by (simp_all add: transcribed_def appendTranscription_def completeTurn_def Let_def split: option.split)

lemma startsOf_append: "startsOf c (xs @ ys) = startsOf c xs @ startsOf c ys"
  by (induction c xs rule: startsOf.induct) simp_all

lemma startsOf_stops [simp]: "startsOf c (map SourceStop xs) = []"
  by (induction xs) simp_all




lemma teardown_status [simp]:
  "status (closeSession s) = status s"
  "status (stopTracks s) = status s"
  "status (disconnectNode s) = status s"
  "status (closeInputContext s) = status s"
  "status (closeOutputContext s) = status s"
  by (simp_all add: closeSession_def stopTracks_def disconnectNode_def closeInputContext_def
        closeOutputContext_def split: option.split)

lemma teardown_conversation [simp]:
  "conversation (closeSession s) = conversation s"
  "conversation (stopTracks s) = conversation s"
  "conversation (disconnectNode s) = conversation s"
  "conversation (closeInputContext s) = conversation s"
  "conversation (closeOutputContext s) = conversation s"
  by (simp_all add: closeSession_def stopTracks_def disconnectNode_def closeInputContext_def
        closeOutputContext_def split: option.split)

lemma stopSession_status: "status (snd (stopSession s)) = idle"
  by (simp add: stopSession_def Let_def)

lemma stopSession_conversation: "conversation (snd (stopSession s)) = conversation s"
  by (simp add: stopSession_def Let_def)

text \<open>
  Two sums as JavaScript computes them: \<^verbatim>\<open>0.1 + 0.2\<close> is \<^verbatim>\<open>0.30000000000000004\<close> (a tie,
  rounded to the even neighbour) and \<^verbatim>\<open>0.1 + 0.7\<close> is \<^verbatim>\<open>0.7999999999999999\<close>; sums of
  small integers are exact.
\<close>

lemma addDouble_examples:
  "addDouble (3602879701896397 / 2 ^ 55) (3602879701896397 / 2 ^ 54) = 5404319552844596 / 2 ^ 54"
  "addDouble (3602879701896397 / 2 ^ 55) (3152519739159347 / 2 ^ 52) = 7205759403792793 / 2 ^ 53"
  "addDouble 0 10 = 10"
  "addDouble 3 1 = 4"
  "addDouble (- 3) (1 / 2) = - (5 / 2)"
  by (simp_all add: addDouble_def roundDouble_def roundTiesToEven_def ilog2_def pow2_def
        compute_bitlen Let_def)

section \<open>Failed start attempts\<close>

text \<open>
  C1. The claim: after a failed start attempt and the teardown it invokes, an error message
  is recorded and the status is \<open>error\<close>. The \<^verbatim>\<open>catch\<close> block sets the status to \<open>error\<close>
  and then calls \<^verbatim>\<open>stopSession\<close>, whose first statement sets it to \<open>idle\<close>. At a start
  from the initial state with the microphone permission denied, the attempt ends with the
  message recorded and the status \<open>idle\<close>.
\<close>

theorem startSession_denied_ends_idle:
  "startSession \<lparr>getUserMedia = None, newInputContext = Some ctx_running,
       newOutputContext = Some ctx_running, connect = Some fulfilled\<rparr> initial
   = (Returned,
      initial\<lparr>error_msg := Some ''Could not access microphone. Please grant permission and try again.''\<rparr>)
   \<and> status initial = idle"
  by (simp add: startSession_def startFailed_def stopSession_def initial_def closeSession_def
        stopTracks_def disconnectNode_def closeInputContext_def closeOutputContext_def)

text \<open>No start attempt, failed or not, leaves the status \<open>error\<close>; neither does the error callback.\<close>

lemma startSession_status_not_error: "status (snd (startSession e s)) \<noteq> error"
  by (simp add: startSession_def startFailed_def stopSession_status Let_def split: option.split)

lemma handleError_status_idle: "status (handleError s) = idle"
  by (simp add: handleError_def stopSession_status)

section \<open>Conversion of captured samples\<close>

text \<open>
  C2, as claimed: the sample \<open>1.0\<close> converts to \<open>32767\<close>. It does not: \<open>1.0 * 32768 = 32768\<close>
  is outside the signed 16-bit range and the assignment wraps it.
\<close>

theorem sample_one_not_32767: "map sint (floatTo16BitPCM [Finite 1]) \<noteq> [32767]"
  by (simp add: floatTo16BitPCM_def ToInt16_def multiply_def trunc_def)

text \<open>
  C2, amended: under the scaling of the capture callback (multiply by 32768, truncate,
  wrap into signed 16 bits) the sample \<open>1.0\<close> converts to \<open>-32768\<close>.
\<close>

theorem sample_one_wraps: "map sint (floatTo16BitPCM [Finite 1]) = [- 32768]"
  by (simp add: floatTo16BitPCM_def ToInt16_def multiply_def trunc_def)

section \<open>Interruption\<close>

text \<open>
  C5. From every state, a run of the message handler that processes an interruption signal
  (the message has \<^verbatim>\<open>interrupted\<close> set and the run is not cut short by a decoding error)
  leaves the set of active sources empty, the cursor at zero and the status \<open>listening\<close>.
\<close>

theorem interruption_resets_playback:
  assumes "interrupted m" and "fst (handleMessage e m s) = Returned"
  shows "audioSources (snd (handleMessage e m s)) = []
       \<and> nextAudioStartTime (snd (handleMessage e m s)) = 0
       \<and> status (snd (handleMessage e m s)) = listening"
  using assms
  by (simp add: handleMessage_snd handleMessage_fst interrupt_def stopAllSources_empty)

theorem interruption_resets_playback_witness:
  "interrupted (noContent\<lparr>modelTurn := Some [Some ''AAAA''], interrupted := True\<rparr>)
   \<and> fst (handleMessage
        \<lparr>currentTime = 3, dateNow_user = 1000, dateNow_ai = 1000, decodeAudioData = (\<lambda>b. Some 2)\<rparr>
        (noContent\<lparr>modelTurn := Some [Some ''AAAA''], interrupted := True\<rparr>)
        (initial\<lparr>outputAudioContext := Some ctx_running, audioSources := [0, 1], created := 2,
           status := speaking, nextAudioStartTime := 7\<rparr>)) = Returned
   \<and> audioSources (snd (handleMessage
        \<lparr>currentTime = 3, dateNow_user = 1000, dateNow_ai = 1000, decodeAudioData = (\<lambda>b. Some 2)\<rparr>
        (noContent\<lparr>modelTurn := Some [Some ''AAAA''], interrupted := True\<rparr>)
        (initial\<lparr>outputAudioContext := Some ctx_running, audioSources := [0, 1], created := 2,
           status := speaking, nextAudioStartTime := 7\<rparr>))) = []
   \<and> nextAudioStartTime (snd (handleMessage
        \<lparr>currentTime = 3, dateNow_user = 1000, dateNow_ai = 1000, decodeAudioData = (\<lambda>b. Some 2)\<rparr>
        (noContent\<lparr>modelTurn := Some [Some ''AAAA''], interrupted := True\<rparr>)
        (initial\<lparr>outputAudioContext := Some ctx_running, audioSources := [0, 1], created := 2,
           status := speaking, nextAudioStartTime := 7\<rparr>))) = 0
   \<and> status (snd (handleMessage
        \<lparr>currentTime = 3, dateNow_user = 1000, dateNow_ai = 1000, decodeAudioData = (\<lambda>b. Some 2)\<rparr>
        (noContent\<lparr>modelTurn := Some [Some ''AAAA''], interrupted := True\<rparr>)
        (initial\<lparr>outputAudioContext := Some ctx_running, audioSources := [0, 1], created := 2,
           status := speaking, nextAudioStartTime := 7\<rparr>))) = listening"
  using interruption_resets_playback
    [of "noContent\<lparr>modelTurn := Some [Some ''AAAA''], interrupted := True\<rparr>"
        "\<lparr>currentTime = 3, dateNow_user = 1000, dateNow_ai = 1000, decodeAudioData = (\<lambda>b. Some 2)\<rparr>"
        "initial\<lparr>outputAudioContext := Some ctx_running, audioSources := [0, 1], created := 2,
           status := speaking, nextAudioStartTime := 7\<rparr>"]
  by (simp add: noContent_def initial_def handleMessage_def transcribed_def
        appendTranscription_def scheduleAudio_def base64Audio_def playAudio_def)

section \<open>Stopping without a session\<close>

text \<open>
  C9. From the initial state (no session was ever started), two calls of \<^verbatim>\<open>stopSession\<close>
  in succession both return without throwing, and the status afterwards is \<open>idle\<close>.
\<close>

theorem stopSession_twice_initial:
  "fst (stopSession initial) = Returned
   \<and> fst (stopSession (snd (stopSession initial))) = Returned
   \<and> status (snd (stopSession (snd (stopSession initial)))) = idle"
  by (simp add: stopSession_def initial_def closeSession_def stopTracks_def disconnectNode_def
        closeInputContext_def closeOutputContext_def)

section \<open>The close callback\<close>

text \<open>
  C10. The close callback leaves the whole state as it was: status, conversation, error
  message, accumulators, cursor, active sources and every resource handle. It writes at
  most a line to the console.
\<close>

theorem handleClose_state_unchanged: "snd (handleClose s) = s \<and> step s OnClose = s"
  by (simp add: handleClose_def)

section \<open>Transcription fragments\<close>

text \<open>
  C3, as claimed: every fragment an event carries is appended to its buffer. The handler
  reads the user-side fragment in the \<^verbatim>\<open>else\<close> branch of the test for the assistant-side
  fragment (lines 64-68): of an event that carries both, the user-side fragment is not
  appended.
\<close>

theorem both_fragments_counterexample:
  "inputTranscription (noContent\<lparr>outputTranscription := Some ''Hi'', inputTranscription := Some ''Hello''\<rparr>)
     = Some ''Hello''
   \<and> userInputRef (snd (handleMessage
        \<lparr>currentTime = 0, dateNow_user = 1000, dateNow_ai = 1000, decodeAudioData = (\<lambda>b. None)\<rparr>
        (noContent\<lparr>outputTranscription := Some ''Hi'', inputTranscription := Some ''Hello''\<rparr>) initial))
     \<noteq> userInputRef initial @ ''Hello''
   \<and> userInputRef (snd (handleMessage
        \<lparr>currentTime = 0, dateNow_user = 1000, dateNow_ai = 1000, decodeAudioData = (\<lambda>b. None)\<rparr>
        (noContent\<lparr>outputTranscription := Some ''Hi'', inputTranscription := Some ''Hello''\<rparr>) initial))
     = []"
  by (simp add: handleMessage_transcript transcribed_def appendTranscription_def noContent_def initial_def)

text \<open>
  C3, amended: for every sequence of message events that each carry at most one
  transcription fragment, received between two turn boundaries, each buffer is extended by
  the fragments of its side, in arrival order and with none dropped.
\<close>

theorem fragments_accumulate:
  assumes "\<forall>(e, m) \<in> set ems. \<not> turnComplete m
             \<and> (outputTranscription m = None \<or> inputTranscription m = None)"
  shows "userInputRef (handleMessages ems s)
           = userInputRef s @ concat (map (\<lambda>(e, m). fragment (inputTranscription m)) ems)
       \<and> aiOutputRef (handleMessages ems s)
           = aiOutputRef s @ concat (map (\<lambda>(e, m). fragment (outputTranscription m)) ems)"
  using handleMessages_accumulate(1,2) [OF assms] by simp

theorem fragments_accumulate_witness:
  "userInputRef (handleMessages
      [(\<lparr>currentTime = 0, dateNow_user = 1000, dateNow_ai = 1000, decodeAudioData = (\<lambda>b. None)\<rparr>, noContent\<lparr>inputTranscription := Some ''Hel''\<rparr>),
       (\<lparr>currentTime = 0, dateNow_user = 1000, dateNow_ai = 1000, decodeAudioData = (\<lambda>b. None)\<rparr>, noContent\<lparr>outputTranscription := Some ''Hi''\<rparr>),
       (\<lparr>currentTime = 0, dateNow_user = 1000, dateNow_ai = 1000, decodeAudioData = (\<lambda>b. None)\<rparr>, noContent\<lparr>inputTranscription := Some ''lo''\<rparr>)] initial) = ''Hello''
   \<and> aiOutputRef (handleMessages
      [(\<lparr>currentTime = 0, dateNow_user = 1000, dateNow_ai = 1000, decodeAudioData = (\<lambda>b. None)\<rparr>, noContent\<lparr>inputTranscription := Some ''Hel''\<rparr>),
       (\<lparr>currentTime = 0, dateNow_user = 1000, dateNow_ai = 1000, decodeAudioData = (\<lambda>b. None)\<rparr>, noContent\<lparr>outputTranscription := Some ''Hi''\<rparr>),
       (\<lparr>currentTime = 0, dateNow_user = 1000, dateNow_ai = 1000, decodeAudioData = (\<lambda>b. None)\<rparr>, noContent\<lparr>inputTranscription := Some ''lo''\<rparr>)] initial) = ''Hi''"
  using fragments_accumulate [of
      "[(\<lparr>currentTime = 0, dateNow_user = 1000, dateNow_ai = 1000, decodeAudioData = (\<lambda>b. None)\<rparr>, noContent\<lparr>inputTranscription := Some ''Hel''\<rparr>),
       (\<lparr>currentTime = 0, dateNow_user = 1000, dateNow_ai = 1000, decodeAudioData = (\<lambda>b. None)\<rparr>, noContent\<lparr>outputTranscription := Some ''Hi''\<rparr>),
       (\<lparr>currentTime = 0, dateNow_user = 1000, dateNow_ai = 1000, decodeAudioData = (\<lambda>b. None)\<rparr>, noContent\<lparr>inputTranscription := Some ''lo''\<rparr>)]" initial]
  by (simp add: noContent_def initial_def)

section \<open>Turn completion\<close>

text \<open>
  C7. With both buffers empty, the user fragments \<open>Hel\<close>, \<open>lo\<close> and the assistant
  fragments \<open>Hi \<close>, \<open>there\<close> arrive as four separate events, interleaved in any way that
  keeps the order of each side, followed by a turn-complete event. The log gains exactly
  the user message \<open>Hello\<close> and then the assistant message \<open>Hi there\<close>, and both buffers
  are empty afterwards.
\<close>

theorem hello_turn:
  assumes "userInputRef s = []" and "aiOutputRef s = []"
    and "map snd ems \<in> shuffles
           [noContent\<lparr>inputTranscription := Some ''Hel''\<rparr>, noContent\<lparr>inputTranscription := Some ''lo''\<rparr>]
           [noContent\<lparr>outputTranscription := Some ''Hi ''\<rparr>, noContent\<lparr>outputTranscription := Some ''there''\<rparr>]"
  shows "conversation (handleMessages (ems @ [(e, noContent\<lparr>turnComplete := True\<rparr>)]) s)
           = conversation s @ [\<lparr>msg_id = dateNow_user e, speaker = user, msg_text = ''Hello''\<rparr>,
                               \<lparr>msg_id = dateNow_ai e + 1, speaker = ai, msg_text = ''Hi there''\<rparr>]
       \<and> userInputRef (handleMessages (ems @ [(e, noContent\<lparr>turnComplete := True\<rparr>)]) s) = []
       \<and> aiOutputRef (handleMessages (ems @ [(e, noContent\<lparr>turnComplete := True\<rparr>)]) s) = []"
proof -
  let ?s' = "handleMessages ems s"
  let ?us = "[noContent\<lparr>inputTranscription := Some ''Hel''\<rparr>, noContent\<lparr>inputTranscription := Some ''lo''\<rparr>]"
  let ?as = "[noContent\<lparr>outputTranscription := Some ''Hi ''\<rparr>, noContent\<lparr>outputTranscription := Some ''there''\<rparr>]"
  let ?end = "noContent\<lparr>turnComplete := True\<rparr>"
  have disj: "set ?us \<inter> set ?as = {}"
    by (simp add: noContent_def)
  have "set (map snd ems) = set ?us \<union> set ?as"
    using assms(3) by (rule set_shuffles)
  then have "\<forall>m \<in> snd ` set ems. \<not> turnComplete m \<and> (outputTranscription m = None \<or> inputTranscription m = None)"
    by (simp add: noContent_def)
  then have pre: "\<forall>(e, m) \<in> set ems. \<not> turnComplete m \<and> (outputTranscription m = None \<or> inputTranscription m = None)"
    by auto
  have "concat (map (\<lambda>m. fragment (inputTranscription m)) (map snd ems))
          = concat (map (\<lambda>m. fragment (inputTranscription m)) ?us)"
    using assms(3) disj by (rule shuffles_concat_left) (simp add: noContent_def)
  then have ins: "concat (map (\<lambda>(e, m). fragment (inputTranscription m)) ems) = ''Hello''"
    by (simp add: noContent_def comp_def case_prod_unfold)
  have "concat (map (\<lambda>m. fragment (outputTranscription m)) (map snd ems))
          = concat (map (\<lambda>m. fragment (outputTranscription m)) ?as)"
    using assms(3) disj by (rule shuffles_concat_right) (simp add: noContent_def)
  then have outs: "concat (map (\<lambda>(e, m). fragment (outputTranscription m)) ems) = ''Hi there''"
    by (simp add: noContent_def comp_def case_prod_unfold)
  have u: "userInputRef ?s' = ''Hello''"
    using handleMessages_accumulate(1) [OF pre, of s] assms(1) ins by simp
  have a: "aiOutputRef ?s' = ''Hi there''"
    using handleMessages_accumulate(2) [OF pre, of s] assms(2) outs by simp
  have c: "conversation ?s' = conversation s"
    by (rule handleMessages_accumulate(3) [OF pre])
  have t: "trim ''Hello'' = ''Hello''" "trim ''Hi there'' = ''Hi there''"
    by (simp_all add: trim_def isWhiteSpace_def)
  have fin: "handleMessages (ems @ [(e, ?end)]) s = snd (handleMessage e ?end ?s')"
    by (simp add: handleMessages_append)
  have m: "turnComplete ?end" "outputTranscription ?end = None \<or> inputTranscription ?end = None"
    "inputTranscription ?end = None" "outputTranscription ?end = None"
    by (simp_all add: noContent_def)
  show ?thesis
    unfolding fin handleMessage_transcript
    using transcribed_turn [OF m(1,2), of e ?s'] u a c t m(3,4) by simp
qed

theorem hello_turn_witness:
  "conversation (handleMessages
      ([(\<lparr>currentTime = 0, dateNow_user = 1000, dateNow_ai = 1000, decodeAudioData = (\<lambda>b. None)\<rparr>,
           noContent\<lparr>inputTranscription := Some ''Hel''\<rparr>),
        (\<lparr>currentTime = 0, dateNow_user = 1010, dateNow_ai = 1010, decodeAudioData = (\<lambda>b. None)\<rparr>,
           noContent\<lparr>inputTranscription := Some ''lo''\<rparr>),
        (\<lparr>currentTime = 0, dateNow_user = 1020, dateNow_ai = 1020, decodeAudioData = (\<lambda>b. None)\<rparr>,
           noContent\<lparr>outputTranscription := Some ''Hi ''\<rparr>),
        (\<lparr>currentTime = 0, dateNow_user = 1030, dateNow_ai = 1030, decodeAudioData = (\<lambda>b. None)\<rparr>,
           noContent\<lparr>outputTranscription := Some ''there''\<rparr>)]
       @ [(\<lparr>currentTime = 0, dateNow_user = 2000, dateNow_ai = 2001, decodeAudioData = (\<lambda>b. None)\<rparr>,
           noContent\<lparr>turnComplete := True\<rparr>)]) initial)
     = [\<lparr>msg_id = 2000, speaker = user, msg_text = ''Hello''\<rparr>,
        \<lparr>msg_id = 2002, speaker = ai, msg_text = ''Hi there''\<rparr>]"
  using hello_turn [of initial
      "[(\<lparr>currentTime = 0, dateNow_user = 1000, dateNow_ai = 1000, decodeAudioData = (\<lambda>b. None)\<rparr>,
           noContent\<lparr>inputTranscription := Some ''Hel''\<rparr>),
        (\<lparr>currentTime = 0, dateNow_user = 1010, dateNow_ai = 1010, decodeAudioData = (\<lambda>b. None)\<rparr>,
           noContent\<lparr>inputTranscription := Some ''lo''\<rparr>),
        (\<lparr>currentTime = 0, dateNow_user = 1020, dateNow_ai = 1020, decodeAudioData = (\<lambda>b. None)\<rparr>,
           noContent\<lparr>outputTranscription := Some ''Hi ''\<rparr>),
        (\<lparr>currentTime = 0, dateNow_user = 1030, dateNow_ai = 1030, decodeAudioData = (\<lambda>b. None)\<rparr>,
           noContent\<lparr>outputTranscription := Some ''there''\<rparr>)]"
      "\<lparr>currentTime = 0, dateNow_user = 2000, dateNow_ai = 2001, decodeAudioData = (\<lambda>b. None)\<rparr>"]
  by (simp add: noContent_def initial_def)

text \<open>
  C8, as claimed: when only assistant fragments arrive before the turn completes, exactly
  one message is appended. The handler appends a message only if the trimmed text is not
  empty (line 77): after the single assistant fragment \<open>" "\<close> no message is appended.
\<close>

theorem blank_assistant_turn_counterexample:
  "conversation (handleMessages
      [(\<lparr>currentTime = 0, dateNow_user = 1000, dateNow_ai = 1000, decodeAudioData = (\<lambda>b. None)\<rparr>,
          noContent\<lparr>outputTranscription := Some '' ''\<rparr>),
       (\<lparr>currentTime = 0, dateNow_user = 1000, dateNow_ai = 1000, decodeAudioData = (\<lambda>b. None)\<rparr>,
          noContent\<lparr>turnComplete := True\<rparr>)] initial) = conversation initial"
  by (simp add: handleMessage_transcript transcribed_def appendTranscription_def completeTurn_def
        noContent_def initial_def trim_def isWhiteSpace_def)

text \<open>
  C8, amended: when no user fragment is pending or arrives before the turn completes and
  the assistant text accumulated at the turn boundary has a character that is not white
  space, exactly one message is appended, the assistant's with the trimmed text, and no
  user message.
\<close>

theorem assistant_only_turn:
  assumes "userInputRef s = []"
    and "\<forall>(e, m) \<in> set ems. inputTranscription m = None \<and> \<not> turnComplete m"
    and "inputTranscription mt = None" and "turnComplete mt"
    and "trim (aiOutputRef s @ concat (map (\<lambda>(e, m). fragment (outputTranscription m)) (ems @ [(et, mt)]))) \<noteq> []"
  shows "conversation (handleMessages (ems @ [(et, mt)]) s)
       = conversation s
         @ [\<lparr>msg_id = dateNow_ai et + 1, speaker = ai,
             msg_text = trim (aiOutputRef s
                 @ concat (map (\<lambda>(e, m). fragment (outputTranscription m)) (ems @ [(et, mt)])))\<rparr>]"
proof -
  let ?s' = "handleMessages ems s"
  have pre: "\<forall>(e, m) \<in> set ems. \<not> turnComplete m \<and> (outputTranscription m = None \<or> inputTranscription m = None)"
    using assms(2) by auto
  have nofrag: "concat (map (\<lambda>(e, m). fragment (inputTranscription m)) ems) = []"
    using assms(2) by (induction ems) auto
  have u: "userInputRef ?s' = []"
    using handleMessages_accumulate(1) [OF pre, of s] assms(1) nofrag by simp
  have a: "aiOutputRef ?s' = aiOutputRef s @ concat (map (\<lambda>(e, m). fragment (outputTranscription m)) ems)"
    by (rule handleMessages_accumulate(2) [OF pre])
  have c: "conversation ?s' = conversation s"
    by (rule handleMessages_accumulate(3) [OF pre])
  have "conversation (handleMessages (ems @ [(et, mt)]) s) = conversation (transcribed et mt ?s')"
    by (simp add: handleMessages_append handleMessage_transcript)
  also have "\<dots> = conversation s
         @ [\<lparr>msg_id = dateNow_ai et + 1, speaker = ai,
             msg_text = trim (aiOutputRef s
                 @ concat (map (\<lambda>(e, m). fragment (outputTranscription m)) (ems @ [(et, mt)])))\<rparr>]"
    using transcribed_turn(1) [of mt et ?s'] assms(3,4,5) u a c by simp
  finally show ?thesis .
qed

theorem assistant_only_turn_witness:
  "conversation (handleMessages
      ([(\<lparr>currentTime = 0, dateNow_user = 1000, dateNow_ai = 1000, decodeAudioData = (\<lambda>b. None)\<rparr>,
          noContent\<lparr>outputTranscription := Some ''Hi ''\<rparr>)] @
       [(\<lparr>currentTime = 0, dateNow_user = 2000, dateNow_ai = 2000, decodeAudioData = (\<lambda>b. None)\<rparr>,
          noContent\<lparr>outputTranscription := Some ''there '', turnComplete := True\<rparr>)]) initial)
   = [\<lparr>msg_id = 2001, speaker = ai, msg_text = ''Hi there''\<rparr>]"
  using assistant_only_turn [of initial
      "[(\<lparr>currentTime = 0, dateNow_user = 1000, dateNow_ai = 1000, decodeAudioData = (\<lambda>b. None)\<rparr>,
          noContent\<lparr>outputTranscription := Some ''Hi ''\<rparr>)]"
      "noContent\<lparr>outputTranscription := Some ''there '', turnComplete := True\<rparr>"
      "\<lparr>currentTime = 0, dateNow_user = 2000, dateNow_ai = 2000, decodeAudioData = (\<lambda>b. None)\<rparr>"]
  by (simp add: noContent_def initial_def trim_def isWhiteSpace_def)

section \<open>Gapless playback\<close>




section \<open>Message identifiers\<close>

text \<open>
  C6. The claim: in every reachable conversation log the ids are unique and increasing in
  log order. The ids are \<^verbatim>\<open>Date.now()\<close> for a user message and \<^verbatim>\<open>Date.now() + 1\<close> for an
  assistant message (lines 75 and 78); the \<open>+ 1\<close> separates the two messages of one turn,
  and nothing separates the messages of different turns. In the run below, from the
  initial state, an assistant turn completes at time 1000 and a user turn at time 1001: the
  log holds two messages with the id 1001.
\<close>

theorem duplicate_ids_across_turns:
  "map msg_id (conversation (run
     [OnMessage \<lparr>currentTime = 0, dateNow_user = 1000, dateNow_ai = 1000, decodeAudioData = (\<lambda>b. None)\<rparr>
        (noContent\<lparr>outputTranscription := Some ''Hi'', turnComplete := True\<rparr>),
      OnMessage \<lparr>currentTime = 0, dateNow_user = 1001, dateNow_ai = 1001, decodeAudioData = (\<lambda>b. None)\<rparr>
        (noContent\<lparr>inputTranscription := Some ''Bye'', turnComplete := True\<rparr>)] initial))
     = [1001, 1001]"
  by (simp add: noContent_def initial_def handleMessage_snd transcribed_def appendTranscription_def
        completeTurn_def scheduleAudio_def base64Audio_def trim_def isWhiteSpace_def)

end
